theory Spec2Isabelle
  imports Complex_Main
begin

section \<open>Data model\<close>

text \<open>
  The pricing engine of \<^verbatim>\<open>timeframe_algorithm.py\<close> (class TimeframeAlgorithm) and of
  \<^verbatim>\<open>monthly_algorithm.py\<close> (class MonthlyAlgorithm). The code is read twice.
  In the exact reading (sections TimeframeAlgorithm and MonthlyAlgorithm) a Python float
  is a real number and the arithmetic is exact; it decides the claims about tables,
  selection, error order and the equality of the two classes, where rounding plays no
  part. In the binary64 reading (section "The binary64 reading") a float is a finite
  IEEE double and every operation rounds; it decides the claims about extremes, strict
  bounds and strict monotonicity. Stat tuples are lists of reals, the dictionaries keyed
  by the seven stat names are total functions on \<open>stat\<close>, and every exception the code can
  raise is a value of \<open>py_error\<close>.
\<close>

text \<open>
  \<open>NonFinite\<close> is not an exception: in the binary64 reading it marks a run in which an
  intermediate double result is \<open>inf\<close> or \<open>nan\<close>; Python goes on computing with it, the
  embedding stops there and says nothing more about such a run.
\<close>

datatype py_error =
  ValueError string | IndexError | ZeroDivisionError | OverflowError | NonFinite

text \<open>\<open>player_archetype\<close> is \<open>None\<close> or a string.\<close>

type_synonym archetype = "string option"

text \<open>The dictionary keys \<open>'pts', 'reb', 'ast', 'to', 'stocks', 'threepm', 'ts%'\<close>.\<close>

datatype stat = Pts | Reb | Ast | To | Stocks | Threepm | TsPct

type_synonym stat_dict = "stat \<Rightarrow> real"

text \<open>A dictionary literal with the seven keys in the order the source writes them.\<close>

definition mk_dict :: "real \<Rightarrow> real \<Rightarrow> real \<Rightarrow> real \<Rightarrow> real \<Rightarrow> real \<Rightarrow> real \<Rightarrow> stat_dict" where
  "mk_dict p r a t s th ts =
     (\<lambda>k. case k of Pts \<Rightarrow> p | Reb \<Rightarrow> r | Ast \<Rightarrow> a | To \<Rightarrow> t
                 | Stocks \<Rightarrow> s | Threepm \<Rightarrow> th | TsPct \<Rightarrow> ts)"

text \<open>The order in which \<open>weights.keys()\<close> iterates.\<close>

definition stat_keys :: "stat list" where
  "stat_keys = [Pts, Reb, Ast, To, Stocks, Threepm, TsPct]"

text \<open>Python's \<open>not player_archetype\<close>: true for \<open>None\<close> and for the empty string.\<close>

definition not_archetype :: "archetype \<Rightarrow> bool" where
  "not_archetype a = (a = None \<or> a = Some [])"

text \<open>Unpacking \<open>a, b, c, d, e, f, g = xs\<close> raises ValueError unless \<open>xs\<close> has seven items.\<close>

definition unpack7 :: "real list \<Rightarrow> py_error + (real \<times> real \<times> real \<times> real \<times> real \<times> real \<times> real)" where
  "unpack7 xs =
     (if length xs < 7 then Inl (ValueError ''not enough values to unpack'')
      else if length xs > 7 then Inl (ValueError ''too many values to unpack'')
      else Inr (xs ! 0, xs ! 1, xs ! 2, xs ! 3, xs ! 4, xs ! 5, xs ! 6))"

record pricing_result =
  res_projected_stats :: "real list"
  res_standard_deviations :: stat_dict
  res_actual_averages :: "real list"
  res_z_scores :: stat_dict
  res_pps :: real
  res_dis :: real
  res_raw_delta :: real
  res_dampened_delta :: real
  res_new_price :: real
  res_price_change_pct :: real
  res_old_price :: real
  res_timeframe :: string
  res_num_games :: int

section \<open>TimeframeAlgorithm\<close>

subsection \<open>calculate\_projected\_stats\<close>

definition invalid_timeframe_msg :: string where
  "invalid_timeframe_msg =
     ''Invalid timeframe. Use 'weekly', 'monthly', or 'season'' @ [CHR 0x27]"

text \<open>
  The loop \<open>for i in range(len(season_avg)): projected.append(0.5 * season_avg[i] + 0.5 * recent_avg[i])\<close>;
  reading \<open>recent_avg[i]\<close> past its end raises IndexError.
\<close>

fun blend :: "real list \<Rightarrow> real list \<Rightarrow> py_error + real list" where
  "blend [] recent_avg = Inr []"
| "blend (s # season_avg) [] = Inl IndexError"
| "blend (s # season_avg) (r # recent_avg) =
     (case blend season_avg recent_avg of
        Inl e \<Rightarrow> Inl e
      | Inr projected \<Rightarrow> Inr ((0.5 * s + 0.5 * r) # projected))"

text \<open>The comprehension \<open>[stat * m for stat in projected]\<close>.\<close>

definition scale :: "real \<Rightarrow> real list \<Rightarrow> real list" where
  "scale m projected = map (\<lambda>stat. stat * m) projected"

definition calculate_projected_stats ::
  "real list \<Rightarrow> real list \<Rightarrow> string \<Rightarrow> bool \<Rightarrow> archetype \<Rightarrow> py_error + real list" where
  "calculate_projected_stats season_avg recent_avg timeframe use_2023_stats player_archetype =
     (case
        (if timeframe = ''weekly'' then blend season_avg recent_avg
         else if timeframe = ''monthly'' then
           (case blend season_avg recent_avg of
              Inl e \<Rightarrow> Inl e
            | Inr projected \<Rightarrow> Inr
               (if player_archetype = Some ''Superstars'' then scale 1.0212 projected
                else if player_archetype = Some ''Elite Shooters'' then scale 1.002 projected
                else if player_archetype = Some ''Elite Defenders'' then scale 0.99685 projected
                else if player_archetype = Some ''Elite Playmakers'' then scale 1.02 projected
                else if player_archetype = Some ''Rebounding Machines'' then scale 0.999 projected
                else if player_archetype = Some ''Turnover Prone'' then scale 0.9885 projected
                else if player_archetype = Some ''One Dimensional'' then scale 1.008 projected
                else if player_archetype = Some ''Versatile'' then scale 1.0325 projected
                else if player_archetype = Some ''Role Players'' then scale 1.0035 projected
                else if player_archetype = Some ''High Volume Scorers'' then scale 1.001 projected
                else if player_archetype = Some ''High Efficiency'' then scale 1.0008 projected
                else projected))
         else if timeframe = ''season'' then
           (if use_2023_stats then Inr season_avg else Inr season_avg)
         else Inl (ValueError invalid_timeframe_msg))
      of
        Inl e \<Rightarrow> Inl e
      | Inr projected \<Rightarrow> Inr
         (if player_archetype = Some ''Superstars'' \<and> timeframe = ''weekly'' then scale 1.035 projected
          else if player_archetype = Some ''Elite Playmakers'' \<and> timeframe = ''weekly'' then scale 1.035 projected
          else if player_archetype = Some ''Versatile'' \<and> timeframe = ''weekly'' then scale 1.045 projected
          else if player_archetype = Some ''One Dimensional'' \<and> timeframe = ''weekly'' then scale 1.0105 projected
          else if player_archetype = Some ''Role Players'' \<and> timeframe = ''weekly'' then scale 1.01 projected
          else if player_archetype = Some ''Turnover Prone'' \<and> timeframe = ''weekly'' then scale 0.98 projected
          else if player_archetype = Some ''Rebounding Machines'' \<and> timeframe = ''weekly'' then scale 0.985 projected
          else if player_archetype = Some ''High Volume Scorers'' \<and> timeframe = ''weekly'' then scale 0.995 projected
          else if player_archetype = Some ''Bench Warmers'' \<and> timeframe = ''weekly'' then scale 1.003 projected
          else if player_archetype = Some ''Elite Shooters'' \<and> timeframe = ''weekly'' then scale 0.9975 projected
          else projected))"

subsection \<open>Dispersion coefficients\<close>

text \<open>\<open>max(stats)\<close> of a non-empty list and \<open>stats.index(v)\<close>, the first position of \<open>v\<close>.\<close>

fun py_max :: "real list \<Rightarrow> real option" where
  "py_max [] = None"
| "py_max (x # xs) = Some (fold max xs x)"

fun py_index :: "real list \<Rightarrow> real \<Rightarrow> nat option" where
  "py_index [] v = None"
| "py_index (x # xs) v = (if x = v then Some 0 else map_option Suc (py_index xs v))"

definition weekly_default_alphas :: stat_dict where
  "weekly_default_alphas = mk_dict 1.418 0.945 0.945 0.958 0.958 0.958 0.07"

text \<open>
  The signature stat of the "One Dimensional" branch: the name at the first position of
  the largest of the six projected values other than \<open>ts%\<close>.
\<close>

definition signature_stat :: "real list \<Rightarrow> py_error + stat" where
  "signature_stat projected_stats =
     (case unpack7 projected_stats of
        Inl e \<Rightarrow> Inl e
      | Inr (pts, reb, ast, tov, stocks, threepm, ts_pct) \<Rightarrow>
         (let stats = [pts, reb, ast, tov, stocks, threepm];
              stat_names = [Pts, Reb, Ast, To, Stocks, Threepm]
          in case py_max stats of
               None \<Rightarrow> Inl (ValueError ''max() arg is an empty sequence'')
             | Some m \<Rightarrow>
                (case py_index stats m of
                   None \<Rightarrow> Inl (ValueError ''x is not in list'')
                 | Some max_index \<Rightarrow> Inr (stat_names ! max_index))))"

definition get_weekly_alphas :: "archetype \<Rightarrow> real list \<Rightarrow> py_error + stat_dict" where
  "get_weekly_alphas player_archetype projected_stats =
     (let default_alphas = weekly_default_alphas in
      if not_archetype player_archetype then Inr default_alphas
      else if player_archetype = Some ''Superstars'' then
        Inr (mk_dict 1.6 1.1 1.1 0.958 0.958 0.958 0.07)
      else if player_archetype = Some ''Versatile'' then
        Inr (mk_dict 1.702 1.134 1.134 1.150 1.150 1.150 0.084)
      else if player_archetype = Some ''Elite Playmakers'' then
        Inr (mk_dict 1.418 0.945 1.2 0.958 0.958 0.958 0.07)
      else if player_archetype = Some ''High Volume Scorers'' then
        Inr (mk_dict 1.3 0.945 0.945 0.958 0.958 0.958 0.07)
      else if player_archetype = Some ''Rebounding Machines'' then
        Inr (mk_dict 1.418 0.85 0.945 0.958 0.958 0.958 0.07)
      else if player_archetype = Some ''Bench Warmers'' then
        Inr (mk_dict 1.021 0.680 0.680 0.689 0.689 0.689 0.050)
      else if player_archetype = Some ''Turnover Prone'' then
        Inr (mk_dict 1.418 0.945 0.945 1.1 0.958 0.958 0.07)
      else if player_archetype = Some ''One Dimensional'' then
        (case signature_stat projected_stats of
           Inl e \<Rightarrow> Inl e
         | Inr sig \<Rightarrow> Inr (default_alphas(sig := default_alphas sig * 1.08)))
      else if player_archetype = Some ''Role Players'' then
        Inr (mk_dict 1.489 0.992 0.992 1.006 1.006 1.006 0.074)
      else Inr default_alphas)"

definition monthly_default_alphas :: stat_dict where
  "monthly_default_alphas = mk_dict 0.809 0.539 0.539 0.547 0.547 0.547 0.07"

text \<open>
  \<open>_get_monthly_alphas\<close> of TimeframeAlgorithm. Every branch of its first cascade
  returns, so the second cascade that follows it in the source is never run.
\<close>

definition get_monthly_alphas :: "archetype \<Rightarrow> stat_dict" where
  "get_monthly_alphas player_archetype =
     (let default_alphas = monthly_default_alphas in
      if not_archetype player_archetype then default_alphas
      else if player_archetype = Some ''Superstars'' then
        mk_dict 1.011 0.674 0.674 0.684 0.684 0.684 0.088
      else if player_archetype = Some ''Elite Shooters'' then
        mk_dict 0.833 0.555 0.555 0.563 0.563 0.563 0.072
      else if player_archetype = Some ''Elite Playmakers'' then
        mk_dict 0.971 0.647 0.647 0.656 0.656 0.656 0.084
      else if player_archetype = Some ''Turnover Prone'' then
        mk_dict 0.769 0.512 0.512 0.520 0.520 0.520 0.067
      else if player_archetype = Some ''One Dimensional'' then
        mk_dict 0.890 0.593 0.593 0.602 0.602 0.602 0.077
      else if player_archetype = Some ''Versatile'' then
        mk_dict 1.011 0.674 0.674 0.684 0.684 0.684 0.088
      else if player_archetype = Some ''Role Players'' then
        mk_dict 0.849 0.566 0.566 0.574 0.574 0.574 0.074
      else default_alphas)"

definition season_alphas :: stat_dict where
  "season_alphas = mk_dict 0.794 0.529 0.529 0.537 0.537 0.537 0.07"

text \<open>The dictionary \<open>std_devs\<close> built from the alphas and the unpacked projection.\<close>

definition std_devs_of :: "stat_dict \<Rightarrow> real \<Rightarrow> real \<Rightarrow> real \<Rightarrow> real \<Rightarrow> real \<Rightarrow> real \<Rightarrow> stat_dict" where
  "std_devs_of alphas pts reb ast tov stocks threepm =
     mk_dict (alphas Pts * sqrt (max pts 0.1))
             (alphas Reb * sqrt (max reb 0.1))
             (alphas Ast * sqrt (max ast 0.1))
             (alphas To * sqrt (max tov 0.1))
             (alphas Stocks * sqrt (max stocks 0.1))
             (alphas Threepm * sqrt (max threepm 0.1))
             (alphas TsPct)"

definition calculate_standard_deviations ::
  "real list \<Rightarrow> string \<Rightarrow> archetype \<Rightarrow> py_error + stat_dict" where
  "calculate_standard_deviations projected_stats timeframe player_archetype =
     (case unpack7 projected_stats of
        Inl e \<Rightarrow> Inl e
      | Inr (pts, reb, ast, tov, stocks, threepm, ts_pct) \<Rightarrow>
         (case
            (if timeframe = ''weekly'' then get_weekly_alphas player_archetype projected_stats
             else if timeframe = ''monthly'' then Inr (get_monthly_alphas player_archetype)
             else Inr season_alphas)
          of
            Inl e \<Rightarrow> Inl e
          | Inr alphas \<Rightarrow> Inr (std_devs_of alphas pts reb ast tov stocks threepm)))"

subsection \<open>Averages, z-scores and the composite score\<close>

text \<open>\<open>total / num_games\<close> for every total; the first division by zero raises.\<close>

definition calculate_actual_averages :: "real list \<Rightarrow> int \<Rightarrow> py_error + real list" where
  "calculate_actual_averages actual_totals num_games =
     (if actual_totals \<noteq> [] \<and> num_games = 0 then Inl ZeroDivisionError
      else Inr (map (\<lambda>total. total / real_of_int num_games) actual_totals))"

definition calculate_z_scores :: "real list \<Rightarrow> real list \<Rightarrow> stat_dict \<Rightarrow> py_error + stat_dict" where
  "calculate_z_scores actual_avg projected_stats std_devs =
     (case unpack7 actual_avg of
        Inl e \<Rightarrow> Inl e
      | Inr (pts, reb, ast, tov, stocks, threepm, ts_pct) \<Rightarrow>
         (case unpack7 projected_stats of
            Inl e \<Rightarrow> Inl e
          | Inr (proj_pts, proj_reb, proj_ast, proj_to, proj_stocks, proj_threepm, proj_ts_pct) \<Rightarrow>
             (if std_devs Pts = 0 \<or> std_devs Reb = 0 \<or> std_devs Ast = 0 \<or> std_devs To = 0
                 \<or> std_devs Stocks = 0 \<or> std_devs Threepm = 0 \<or> std_devs TsPct = 0
              then Inl ZeroDivisionError
              else Inr (mk_dict
                ((pts - proj_pts) / std_devs Pts)
                ((reb - proj_reb) / std_devs Reb)
                ((ast - proj_ast) / std_devs Ast)
                ((proj_to - tov) / std_devs To)
                ((stocks - proj_stocks) / std_devs Stocks)
                ((threepm - proj_threepm) / std_devs Threepm)
                ((ts_pct - proj_ts_pct) / std_devs TsPct)))))"

definition default_weights :: stat_dict where
  "default_weights = mk_dict 0.45 0.15 0.15 0.05 0.10 0.05 0.05"

definition get_archetype_weights :: "archetype \<Rightarrow> stat_dict" where
  "get_archetype_weights player_archetype =
     (if player_archetype = Some ''Superstars'' then
        mk_dict 0.35 0.125 0.125 0.075 0.125 0.10 0.10
      else if player_archetype = Some ''Elite Shooters'' then
        mk_dict 0.45 0.15 0.15 0.05 0.10 0.05 0.05
      else if player_archetype = Some ''Elite Defenders'' then
        mk_dict 0.45 0.15 0.15 0.05 0.10 0.05 0.05
      else if player_archetype = Some ''High Volume Scorers'' then
        mk_dict 0.425 0.125 0.125 0.05 0.075 0.10 0.10
      else if player_archetype = Some ''Elite Playmakers'' then
        mk_dict 0.375 0.15 0.225 0.05 0.10 0.05 0.05
      else if player_archetype = Some ''Rebounding Machines'' then
        mk_dict 0.375 0.15 0.225 0.05 0.10 0.05 0.05
      else if player_archetype = Some ''Bench Warmers'' then
        mk_dict 0.20 0.175 0.175 0.05 0.15 0.10 0.15
      else if player_archetype = Some ''High Efficiency'' then
        mk_dict 0.45 0.125 0.15 0.05 0.10 0.05 0.075
      else if player_archetype = Some ''Turnover Prone'' then
        mk_dict 0.45 0.15 0.15 0.025 0.10 0.05 0.075
      else if player_archetype = Some ''One Dimensional'' then
        mk_dict 0.35 0.175 0.175 0.05 0.125 0.03 0.095
      else if player_archetype = Some ''Versatile'' then
        mk_dict 0.35 0.125 0.125 0.075 0.125 0.10 0.10
      else if player_archetype = Some ''Role Players'' then
        mk_dict 0.425 0.175 0.175 0.05 0.075 0.05 0.05
      else
        mk_dict 0.45 0.15 0.15 0.05 0.10 0.05 0.05)"

text \<open>The weights \<open>calculate_pps\<close> selects before it sums.\<close>

definition pps_weights :: "archetype \<Rightarrow> stat_dict" where
  "pps_weights player_archetype =
     (if not_archetype player_archetype then default_weights
      else get_archetype_weights player_archetype)"

text \<open>\<open>sum(weights[stat] * z_scores[stat] for stat in weights.keys())\<close>, added left to right from 0.\<close>

definition weighted_sum :: "stat_dict \<Rightarrow> stat_dict \<Rightarrow> real" where
  "weighted_sum weights z_scores =
     foldl (\<lambda>acc stat. acc + weights stat * z_scores stat) 0 stat_keys"

definition calculate_pps :: "stat_dict \<Rightarrow> archetype \<Rightarrow> real" where
  "calculate_pps z_scores player_archetype =
     weighted_sum (pps_weights player_archetype) z_scores"

subsection \<open>Imbalance score, raw delta, dampening and price\<close>

definition dis_buys :: "real \<Rightarrow> real" where
  "dis_buys pps = (let buy_adj = 15 * pps in 50 + buy_adj + 2)"

definition dis_sells :: "real \<Rightarrow> real" where
  "dis_sells pps = (let sell_adj = - 15 * pps in 50 + sell_adj - 2)"

text \<open>
  Exact reading: \<open>buys + sells\<close> is 100 for every real \<open>pps\<close> (lemma \<open>dis_total\<close> below).
  In doubles the sum is rounded and can be 0, where the division raises; that is the
  binary64 reading \<open>calculate_dis64\<close>.
\<close>

definition calculate_dis :: "real \<Rightarrow> archetype \<Rightarrow> real" where
  "calculate_dis pps player_archetype =
     (let buys = dis_buys pps; sells = dis_sells pps
      in (buys - sells) / (buys + sells))"

definition calculate_raw_delta :: "real \<Rightarrow> real \<Rightarrow> archetype \<Rightarrow> real" where
  "calculate_raw_delta pps dis player_archetype = 0.8 * pps + 0.2 * dis"

text \<open>
  Exact reading: the radicand \<open>max(1 - k * raw_delta**2, 0.001)\<close> is at least 0.001 (lemma
  \<open>radicand_pos\<close> below). In doubles \<open>raw_delta**2\<close> can overflow and the quotients
  round; that is the binary64 reading \<open>apply_dampening64\<close>.
\<close>

definition apply_dampening :: "real \<Rightarrow> string \<Rightarrow> archetype \<Rightarrow> real" where
  "apply_dampening raw_delta timeframe player_archetype =
     (if raw_delta \<ge> 0 then
        (if timeframe \<in> set [''weekly'', ''monthly''] then
           (if player_archetype = Some ''Superstars'' then
              min (raw_delta / sqrt (max (1 - 0.5 * raw_delta\<^sup>2) 0.001)) 10
            else if player_archetype = Some ''One Dimensional'' then
              min (raw_delta / sqrt (max (1 - 0.5 * raw_delta\<^sup>2) 0.001)) 10
            else if player_archetype = Some ''Bench Warmers'' then
              (if timeframe = ''weekly'' then
                 min (raw_delta / sqrt (max (1 - 0.1 * raw_delta\<^sup>2) 0.001)) 10
               else
                 min (raw_delta / sqrt (max (1 - 0.05 * raw_delta\<^sup>2) 0.001)) 10)
            else if player_archetype = Some ''Versatile'' then
              (if timeframe = ''weekly'' then
                 min (raw_delta / sqrt (max (1 - 0.8 * raw_delta\<^sup>2) 0.001)) 10
               else
                 min (raw_delta / sqrt (max (1 - 0.1 * raw_delta\<^sup>2) 0.001)) 10)
            else if player_archetype = Some ''Rebounding Machines'' then
              min (raw_delta / sqrt (max (1 - 0.8 * raw_delta\<^sup>2) 0.001)) 10
            else
              min (raw_delta / sqrt (max (1 - 0.5 * raw_delta\<^sup>2) 0.001)) 10)
         else
           min (raw_delta / sqrt (max (1 - 0.1 * raw_delta\<^sup>2) 0.001)) 50)
      else
        - 1 * (\<bar>raw_delta\<bar>\<^sup>2 / (\<bar>raw_delta\<bar>\<^sup>2 + 0.18)))"

definition calculate_new_price :: "real \<Rightarrow> real \<Rightarrow> real \<times> real" where
  "calculate_new_price old_price dampened_delta =
     (let new_price = old_price * (1 + dampened_delta);
          price_change_pct = dampened_delta * 100
      in (new_price, price_change_pct))"

subsection \<open>simulate\_timeframe\<close>

definition simulate_timeframe ::
  "real list \<Rightarrow> int \<Rightarrow> real list \<Rightarrow> real list \<Rightarrow> real \<Rightarrow> string \<Rightarrow> bool \<Rightarrow> archetype
     \<Rightarrow> py_error + pricing_result" where
  "simulate_timeframe actual_totals num_games season_avg recent_avg old_price timeframe
       use_2023_stats player_archetype =
     (case calculate_projected_stats season_avg recent_avg timeframe use_2023_stats player_archetype of
        Inl e \<Rightarrow> Inl e
      | Inr projected_stats \<Rightarrow>
     (case calculate_standard_deviations projected_stats timeframe player_archetype of
        Inl e \<Rightarrow> Inl e
      | Inr std_devs \<Rightarrow>
     (case calculate_actual_averages actual_totals num_games of
        Inl e \<Rightarrow> Inl e
      | Inr actual_avg \<Rightarrow>
     (case calculate_z_scores actual_avg projected_stats std_devs of
        Inl e \<Rightarrow> Inl e
      | Inr z_scores \<Rightarrow>
         (let pps = calculate_pps z_scores player_archetype;
              dis = calculate_dis pps player_archetype;
              raw_delta = calculate_raw_delta pps dis player_archetype;
              dampened_delta = apply_dampening raw_delta timeframe player_archetype;
              (new_price, price_change_pct) = calculate_new_price old_price dampened_delta
          in Inr \<lparr>res_projected_stats = projected_stats,
                  res_standard_deviations = std_devs,
                  res_actual_averages = actual_avg,
                  res_z_scores = z_scores,
                  res_pps = pps,
                  res_dis = dis,
                  res_raw_delta = raw_delta,
                  res_dampened_delta = dampened_delta,
                  res_new_price = new_price,
                  res_price_change_pct = price_change_pct,
                  res_old_price = old_price,
                  res_timeframe = timeframe,
                  res_num_games = num_games\<rparr>)))))"

section \<open>MonthlyAlgorithm\<close>

text \<open>
  The methods of the standalone class in \<^verbatim>\<open>monthly_algorithm.py\<close>, each translated from
  its own text and named with the prefix \<open>monthly_\<close>.
\<close>

definition monthly_calculate_projected_stats ::
  "real list \<Rightarrow> real list \<Rightarrow> archetype \<Rightarrow> py_error + real list" where
  "monthly_calculate_projected_stats season_avg recent_avg player_archetype =
     (case blend season_avg recent_avg of
        Inl e \<Rightarrow> Inl e
      | Inr projected \<Rightarrow> Inr
         (if player_archetype = Some ''Superstars'' then scale 1.0212 projected
          else if player_archetype = Some ''Elite Shooters'' then scale 1.002 projected
          else if player_archetype = Some ''Elite Defenders'' then scale 0.99685 projected
          else if player_archetype = Some ''Elite Playmakers'' then scale 1.02 projected
          else if player_archetype = Some ''Rebounding Machines'' then scale 0.999 projected
          else if player_archetype = Some ''Turnover Prone'' then scale 0.9885 projected
          else if player_archetype = Some ''One Dimensional'' then scale 1.008 projected
          else if player_archetype = Some ''Versatile'' then scale 1.0325 projected
          else if player_archetype = Some ''Role Players'' then scale 1.0035 projected
          else if player_archetype = Some ''High Volume Scorers'' then scale 1.001 projected
          else if player_archetype = Some ''High Efficiency'' then scale 1.0008 projected
          else projected))"

definition monthly_get_monthly_alphas :: "archetype \<Rightarrow> stat_dict" where
  "monthly_get_monthly_alphas player_archetype =
     (let default_alphas = mk_dict 0.809 0.539 0.539 0.547 0.547 0.547 0.07 in
      if not_archetype player_archetype then default_alphas
      else if player_archetype = Some ''Superstars'' then
        mk_dict 1.011 0.674 0.674 0.684 0.684 0.684 0.088
      else if player_archetype = Some ''Elite Shooters'' then
        mk_dict 0.833 0.555 0.555 0.563 0.563 0.563 0.072
      else if player_archetype = Some ''Elite Playmakers'' then
        mk_dict 0.971 0.647 0.647 0.656 0.656 0.656 0.084
      else if player_archetype = Some ''Turnover Prone'' then
        mk_dict 0.769 0.512 0.512 0.520 0.520 0.520 0.067
      else if player_archetype = Some ''One Dimensional'' then
        mk_dict 0.890 0.593 0.593 0.602 0.602 0.602 0.077
      else if player_archetype = Some ''Versatile'' then
        mk_dict 1.011 0.674 0.674 0.684 0.684 0.684 0.088
      else if player_archetype = Some ''Role Players'' then
        mk_dict 0.849 0.566 0.566 0.574 0.574 0.574 0.074
      else default_alphas)"

definition monthly_calculate_standard_deviations ::
  "real list \<Rightarrow> archetype \<Rightarrow> py_error + stat_dict" where
  "monthly_calculate_standard_deviations projected_stats player_archetype =
     (case unpack7 projected_stats of
        Inl e \<Rightarrow> Inl e
      | Inr (pts, reb, ast, tov, stocks, threepm, ts_pct) \<Rightarrow>
         (let alphas = monthly_get_monthly_alphas player_archetype
          in Inr (mk_dict (alphas Pts * sqrt (max pts 0.1))
                          (alphas Reb * sqrt (max reb 0.1))
                          (alphas Ast * sqrt (max ast 0.1))
                          (alphas To * sqrt (max tov 0.1))
                          (alphas Stocks * sqrt (max stocks 0.1))
                          (alphas Threepm * sqrt (max threepm 0.1))
                          (alphas TsPct))))"

definition monthly_calculate_actual_averages :: "real list \<Rightarrow> int \<Rightarrow> py_error + real list" where
  "monthly_calculate_actual_averages actual_totals num_games =
     (if actual_totals \<noteq> [] \<and> num_games = 0 then Inl ZeroDivisionError
      else Inr (map (\<lambda>total. total / real_of_int num_games) actual_totals))"

definition monthly_calculate_z_scores ::
  "real list \<Rightarrow> real list \<Rightarrow> stat_dict \<Rightarrow> py_error + stat_dict" where
  "monthly_calculate_z_scores actual_avg projected_stats std_devs =
     (case unpack7 actual_avg of
        Inl e \<Rightarrow> Inl e
      | Inr (pts, reb, ast, tov, stocks, threepm, ts_pct) \<Rightarrow>
         (case unpack7 projected_stats of
            Inl e \<Rightarrow> Inl e
          | Inr (proj_pts, proj_reb, proj_ast, proj_to, proj_stocks, proj_threepm, proj_ts_pct) \<Rightarrow>
             (if std_devs Pts = 0 \<or> std_devs Reb = 0 \<or> std_devs Ast = 0 \<or> std_devs To = 0
                 \<or> std_devs Stocks = 0 \<or> std_devs Threepm = 0 \<or> std_devs TsPct = 0
              then Inl ZeroDivisionError
              else Inr (mk_dict
                ((pts - proj_pts) / std_devs Pts)
                ((reb - proj_reb) / std_devs Reb)
                ((ast - proj_ast) / std_devs Ast)
                ((proj_to - tov) / std_devs To)
                ((stocks - proj_stocks) / std_devs Stocks)
                ((threepm - proj_threepm) / std_devs Threepm)
                ((ts_pct - proj_ts_pct) / std_devs TsPct)))))"

definition monthly_get_archetype_weights :: "archetype \<Rightarrow> stat_dict" where
  "monthly_get_archetype_weights player_archetype =
     (if player_archetype = Some ''Superstars'' then
        mk_dict 0.35 0.125 0.125 0.075 0.125 0.10 0.10
      else if player_archetype = Some ''Elite Shooters'' then
        mk_dict 0.45 0.15 0.15 0.05 0.10 0.05 0.05
      else if player_archetype = Some ''Elite Defenders'' then
        mk_dict 0.45 0.15 0.15 0.05 0.10 0.05 0.05
      else if player_archetype = Some ''High Volume Scorers'' then
        mk_dict 0.425 0.125 0.125 0.05 0.075 0.10 0.10
      else if player_archetype = Some ''Elite Playmakers'' then
        mk_dict 0.375 0.15 0.225 0.05 0.10 0.05 0.05
      else if player_archetype = Some ''Rebounding Machines'' then
        mk_dict 0.375 0.15 0.225 0.05 0.10 0.05 0.05
      else if player_archetype = Some ''Bench Warmers'' then
        mk_dict 0.20 0.175 0.175 0.05 0.15 0.10 0.15
      else if player_archetype = Some ''High Efficiency'' then
        mk_dict 0.45 0.125 0.15 0.05 0.10 0.05 0.075
      else if player_archetype = Some ''Turnover Prone'' then
        mk_dict 0.45 0.15 0.15 0.025 0.10 0.05 0.075
      else if player_archetype = Some ''One Dimensional'' then
        mk_dict 0.35 0.175 0.175 0.05 0.125 0.03 0.095
      else if player_archetype = Some ''Versatile'' then
        mk_dict 0.35 0.125 0.125 0.075 0.125 0.10 0.10
      else if player_archetype = Some ''Role Players'' then
        mk_dict 0.425 0.175 0.175 0.05 0.075 0.05 0.05
      else
        mk_dict 0.45 0.15 0.15 0.05 0.10 0.05 0.05)"

definition monthly_calculate_pps :: "stat_dict \<Rightarrow> archetype \<Rightarrow> real" where
  "monthly_calculate_pps z_scores player_archetype =
     (let weights = monthly_get_archetype_weights player_archetype
      in foldl (\<lambda>acc stat. acc + weights stat * z_scores stat) 0 stat_keys)"

definition monthly_calculate_dis :: "real \<Rightarrow> archetype \<Rightarrow> real" where
  "monthly_calculate_dis pps player_archetype =
     (let buy_adj = 15 * pps;
          sell_adj = - 15 * pps;
          buys = 50 + buy_adj + 2;
          sells = 50 + sell_adj - 2
      in (buys - sells) / (buys + sells))"

definition monthly_calculate_raw_delta :: "real \<Rightarrow> real \<Rightarrow> archetype \<Rightarrow> real" where
  "monthly_calculate_raw_delta pps dis player_archetype = 0.8 * pps + 0.2 * dis"

definition monthly_apply_dampening :: "real \<Rightarrow> archetype \<Rightarrow> real" where
  "monthly_apply_dampening raw_delta player_archetype =
     (if raw_delta \<ge> 0 then
        (if player_archetype = Some ''Superstars'' then
           min (raw_delta / sqrt (max (1 - 0.5 * raw_delta\<^sup>2) 0.001)) 10
         else if player_archetype = Some ''One Dimensional'' then
           min (raw_delta / sqrt (max (1 - 0.5 * raw_delta\<^sup>2) 0.001)) 10
         else if player_archetype = Some ''Bench Warmers'' then
           min (raw_delta / sqrt (max (1 - 0.05 * raw_delta\<^sup>2) 0.001)) 10
         else if player_archetype = Some ''Versatile'' then
           min (raw_delta / sqrt (max (1 - 0.1 * raw_delta\<^sup>2) 0.001)) 10
         else if player_archetype = Some ''Rebounding Machines'' then
           min (raw_delta / sqrt (max (1 - 0.8 * raw_delta\<^sup>2) 0.001)) 10
         else
           min (raw_delta / sqrt (max (1 - 0.5 * raw_delta\<^sup>2) 0.001)) 10)
      else
        - 1 * (\<bar>raw_delta\<bar>\<^sup>2 / (\<bar>raw_delta\<bar>\<^sup>2 + 0.18)))"

definition monthly_calculate_new_price :: "real \<Rightarrow> real \<Rightarrow> real \<times> real" where
  "monthly_calculate_new_price old_price dampened_delta =
     (let new_price = old_price * (1 + dampened_delta);
          price_change_pct = dampened_delta * 100
      in (new_price, price_change_pct))"

definition simulate_monthly ::
  "real list \<Rightarrow> int \<Rightarrow> real list \<Rightarrow> real list \<Rightarrow> real \<Rightarrow> archetype \<Rightarrow> py_error + pricing_result" where
  "simulate_monthly actual_totals num_games season_avg recent_avg old_price player_archetype =
     (case monthly_calculate_projected_stats season_avg recent_avg player_archetype of
        Inl e \<Rightarrow> Inl e
      | Inr projected_stats \<Rightarrow>
     (case monthly_calculate_standard_deviations projected_stats player_archetype of
        Inl e \<Rightarrow> Inl e
      | Inr std_devs \<Rightarrow>
     (case monthly_calculate_actual_averages actual_totals num_games of
        Inl e \<Rightarrow> Inl e
      | Inr actual_avg \<Rightarrow>
     (case monthly_calculate_z_scores actual_avg projected_stats std_devs of
        Inl e \<Rightarrow> Inl e
      | Inr z_scores \<Rightarrow>
         (let pps = monthly_calculate_pps z_scores player_archetype;
              dis = monthly_calculate_dis pps player_archetype;
              raw_delta = monthly_calculate_raw_delta pps dis player_archetype;
              dampened_delta = monthly_apply_dampening raw_delta player_archetype;
              (new_price, price_change_pct) = monthly_calculate_new_price old_price dampened_delta
          in Inr \<lparr>res_projected_stats = projected_stats,
                  res_standard_deviations = std_devs,
                  res_actual_averages = actual_avg,
                  res_z_scores = z_scores,
                  res_pps = pps,
                  res_dis = dis,
                  res_raw_delta = raw_delta,
                  res_dampened_delta = dampened_delta,
                  res_new_price = new_price,
                  res_price_change_pct = price_change_pct,
                  res_old_price = old_price,
                  res_timeframe = ''monthly'',
                  res_num_games = num_games\<rparr>)))))"

section \<open>Derived parameters of the gain branch\<close>

text \<open>
  The saturation coefficient and the cap that \<open>apply_dampening\<close> uses on its gain
  branch, read off its cascade; lemma \<open>apply_dampening_gain_curve\<close> shows that the cascade
  computes \<open>min (raw_delta / sqrt (radicand k raw_delta)) cap\<close> with them.
\<close>

definition radicand :: "real \<Rightarrow> real \<Rightarrow> real" where
  "radicand k raw_delta = max (1 - k * raw_delta\<^sup>2) 0.001"

definition upside_k :: "string \<Rightarrow> archetype \<Rightarrow> real" where
  "upside_k timeframe player_archetype =
     (if timeframe = ''weekly'' \<or> timeframe = ''monthly'' then
        (if player_archetype = Some ''Bench Warmers'' then
           (if timeframe = ''weekly'' then 0.1 else 0.05)
         else if player_archetype = Some ''Versatile'' then
           (if timeframe = ''weekly'' then 0.8 else 0.1)
         else if player_archetype = Some ''Rebounding Machines'' then 0.8
         else 0.5)
      else 0.1)"

definition upside_cap :: "string \<Rightarrow> real" where
  "upside_cap timeframe = (if timeframe = ''weekly'' \<or> timeframe = ''monthly'' then 10 else 50)"

definition gain_curve :: "real \<Rightarrow> real \<Rightarrow> real \<Rightarrow> real" where
  "gain_curve k cap raw_delta = min (raw_delta / sqrt (radicand k raw_delta)) cap"

section \<open>Positions and lists of stats\<close>

text \<open>The position of each stat in a stat tuple.\<close>

fun stat_index :: "stat \<Rightarrow> nat" where
  "stat_index Pts = 0"
| "stat_index Reb = 1"
| "stat_index Ast = 2"
| "stat_index To = 3"
| "stat_index Stocks = 4"
| "stat_index Threepm = 5"
| "stat_index TsPct = 6"

text \<open>The list \<open>stats\<close> the "One Dimensional" branch builds from a stat tuple.\<close>

definition six :: "real list \<Rightarrow> real list" where
  "six ps = [ps ! 0, ps ! 1, ps ! 2, ps ! 3, ps ! 4, ps ! 5]"

section \<open>The binary64 reading\<close>

text \<open>
  A finite Python float is a real number that the rounding \<open>b64\<close> leaves unchanged and
  whose magnitude is below \<open>2^1024\<close> (\<open>is_double\<close>). Every arithmetic operation returns
  the exact result rounded to the nearest double, ties to the even significand, with
  gradual underflow: \<open>b64\<close> keeps 53 significant bits and never goes below the exponent
  \<open>-1074\<close>. A decimal literal of the source denotes the double nearest to it, so \<open>0.18\<close>
  is \<open>b64 0.18\<close>. \<open>x ** 2\<close> and \<open>math.sqrt\<close> are taken as correctly rounded. Signed zeros
  are not distinguished: they compare equal in Python and no operation used here tells
  them apart.
\<close>

text \<open>\<open>2^e\<close> for an integer exponent.\<close>

definition p2 :: "int \<Rightarrow> real" where
  "p2 e = (if 0 \<le> e then 2 ^ nat e else 1 / 2 ^ nat (- e))"

text \<open>Rounding to the nearest integer, ties to even.\<close>

definition rhe :: "real \<Rightarrow> int" where
  "rhe y = (let f = \<lfloor>y\<rfloor>; d = y - of_int f in
            if d < 1 / 2 then f else if 1 / 2 < d then f + 1
            else if even f then f else f + 1)"













subsection \<open>apply\_dampening and calculate\_new\_price in doubles\<close>





section \<open>The exact reading: the gain curve\<close>

lemma radicand_ge: "1 / 1000 \<le> radicand k r"
  by (simp add: radicand_def)

lemma radicand_pos: "0 < radicand k r"
  using radicand_ge [of k r] by linarith

lemma upside_k_pos: "0 < upside_k timeframe a"
  by (simp add: upside_k_def)

lemma upside_cap_pos: "0 < upside_cap timeframe"
  by (simp add: upside_cap_def)

lemma gain_curve_fold: "min (r / sqrt (max (1 - k * r\<^sup>2) 0.001)) cap = gain_curve k cap r"
  by (simp add: gain_curve_def radicand_def)

lemma apply_dampening_gain_curve:
  "0 \<le> r \<Longrightarrow>
     apply_dampening r timeframe a = gain_curve (upside_k timeframe a) (upside_cap timeframe) r"
  unfolding apply_dampening_def gain_curve_fold upside_k_def upside_cap_def
  by simp

section \<open>The composite-score weights\<close>

lemma sum_mk_dict:
  "sum_list (map (mk_dict p r a t s th ts) stat_keys) = p + r + a + t + s + th + ts"
  by (simp add: mk_dict_def stat_keys_def)

lemma get_archetype_weights_sum: "sum_list (map (get_archetype_weights a) stat_keys) = 1"
  unfolding get_archetype_weights_def by (simp add: sum_mk_dict)

text \<open>
  Claim C7. For every archetype (the twelve named ones, no archetype, and any other
  string) the seven weights \<open>calculate_pps\<close> uses sum to 1, hence to 1 within \<open>1e-9\<close>.
\<close>

theorem composite_weights_sum_to_one:
  "sum_list (map (pps_weights a) stat_keys) = 1
   \<and> \<bar>sum_list (map (pps_weights a) stat_keys) - 1\<bar> \<le> 1 / 10 ^ 9"
  by (simp add: pps_weights_def default_weights_def get_archetype_weights_sum sum_mk_dict)

section \<open>The imbalance score\<close>

lemma dis_total: "dis_buys pps + dis_sells pps = 100"
  by (simp add: dis_buys_def dis_sells_def)

lemma calculate_dis_affine: "calculate_dis pps a = 0.3 * pps + 0.04"
  by (simp add: calculate_dis_def dis_buys_def dis_sells_def Let_def field_simps)

text \<open>Claim C5, as stated, fails: the value returned for \<open>PPS = 0\<close> is not negative.\<close>

theorem calculate_dis_zero_not_negative: "\<not> calculate_dis 0 None < 0"
  by (simp add: calculate_dis_affine)

text \<open>
  Claim C5, amended. At \<open>PPS = 0\<close> the additive offsets give \<open>buys = 52\<close> and
  \<open>sells = 48\<close>, so the constant offset favours buys: DIS is \<open>+0.04\<close>, the raw delta is
  \<open>0.008\<close>, and the dampened delta is positive for every timeframe and archetype, a
  price increase.
\<close>

theorem calculate_dis_zero_favours_buys:
  "dis_buys 0 = 52 \<and> dis_sells 0 = 48
   \<and> calculate_dis 0 a = 0.04
   \<and> 0 < calculate_dis 0 a
   \<and> calculate_raw_delta 0 (calculate_dis 0 a) a = 0.008
   \<and> 0 < apply_dampening (calculate_raw_delta 0 (calculate_dis 0 a) a) timeframe a"
proof -
  have rd: "calculate_raw_delta 0 (calculate_dis 0 a) a = 0.008"
    by (simp add: calculate_raw_delta_def calculate_dis_affine)
  have "0 < gain_curve (upside_k timeframe a) (upside_cap timeframe) 0.008"
    using radicand_pos [of "upside_k timeframe a" "0.008"] upside_cap_pos [of timeframe]
    by (simp add: gain_curve_def)
  then have "0 < apply_dampening (calculate_raw_delta 0 (calculate_dis 0 a) a) timeframe a"
    unfolding rd by (simp add: apply_dampening_gain_curve)
  then show ?thesis using rd
    by (simp add: dis_buys_def dis_sells_def calculate_dis_affine)
qed

section \<open>Invalid timeframes\<close>

text \<open>
  Claim C9. For every timeframe string other than weekly, monthly and season,
  \<open>calculate_projected_stats\<close> raises the ValueError with the message naming the three
  valid timeframes, and \<open>simulate_timeframe\<close> ends with that same error whatever its
  other arguments are, also those on which a later stage would raise.
\<close>

theorem invalid_timeframe_fails_fast:
  assumes "timeframe \<notin> {''weekly'', ''monthly'', ''season''}"
  shows "calculate_projected_stats season_avg recent_avg timeframe use_2023_stats a
           = Inl (ValueError invalid_timeframe_msg)
       \<and> simulate_timeframe actual_totals num_games season_avg recent_avg old_price timeframe
             use_2023_stats a = Inl (ValueError invalid_timeframe_msg)"
proof -
  have "calculate_projected_stats season_avg recent_avg timeframe use_2023_stats a
           = Inl (ValueError invalid_timeframe_msg)"
    using assms by (simp add: calculate_projected_stats_def)
  then show ?thesis by (simp add: simulate_timeframe_def)
qed

theorem invalid_timeframe_fails_fast_witness:
  "simulate_timeframe [] 0 [] [] 35 ''daily'' False None = Inl (ValueError invalid_timeframe_msg)
   \<and> simulate_timeframe [1] 0 [1, 2] [] 35 ''event'' True (Some ''Superstars'')
        = Inl (ValueError invalid_timeframe_msg)"
  using invalid_timeframe_fails_fast [of "''daily''" "[]" "[]" False None "[]" 0 35]
        invalid_timeframe_fails_fast [of "''event''" "[1, 2]" "[]" True "Some ''Superstars''" "[1]" 0 35]
  by simp

section \<open>Dispersion coefficients of "One Dimensional"\<close>

lemma fold_max_ge: "x \<le> fold max xs (x::real)"
  by (induction xs arbitrary: x) (auto intro: order_trans [OF max.cobounded2])

lemma fold_max_upper: "y \<in> set xs \<Longrightarrow> y \<le> fold max xs (x::real)"
proof (induction xs arbitrary: x)
  case Nil then show ?case by simp
next
  case (Cons z zs)
  show ?case
  proof (cases "y = z")
    case True
    have "z \<le> max z x" by simp
    also have "\<dots> \<le> fold max zs (max z x)" by (rule fold_max_ge)
    finally show ?thesis using True by simp
  next
    case False
    with Cons.prems have "y \<in> set zs" by simp
    then show ?thesis using Cons.IH by simp
  qed
qed

lemma fold_max_mem: "fold max xs (x::real) \<in> set (x # xs)"
proof (induction xs arbitrary: x)
  case Nil then show ?case by simp
next
  case (Cons z zs)
  have "fold max zs (max z x) \<in> insert (max z x) (set zs)"
    using Cons.IH [of "max z x"] by simp
  moreover have "max z x = z \<or> max z x = x" by (simp add: max_def)
  ultimately have "fold max zs (max z x) \<in> insert x (insert z (set zs))" by auto
  then show ?case by simp
qed

lemma py_max_spec:
  assumes "xs \<noteq> []"
  shows "\<exists>m. py_max xs = Some m \<and> m \<in> set xs \<and> (\<forall>y \<in> set xs. y \<le> m)"
proof (cases xs)
  case Nil with assms show ?thesis by simp
next
  case (Cons x ys)
  have "fold max ys x \<in> set (x # ys)" by (rule fold_max_mem)
  moreover have "\<forall>y \<in> set (x # ys). y \<le> fold max ys x"
    using fold_max_ge [of x ys] fold_max_upper [of _ ys x] by auto
  ultimately show ?thesis using Cons by simp
qed

lemma py_index_spec:
  "v \<in> set xs \<Longrightarrow>
     \<exists>i. py_index xs v = Some i \<and> i < length xs \<and> xs ! i = v \<and> (\<forall>j < i. xs ! j \<noteq> v)"
proof (induction xs)
  case Nil then show ?case by simp
next
  case (Cons x xs)
  show ?case
  proof (cases "x = v")
    case True then show ?thesis by simp
  next
    case False
    with Cons.prems have "v \<in> set xs" by auto
    from Cons.IH [OF this] obtain i where
      i: "py_index xs v = Some i" "i < length xs" "xs ! i = v" "\<forall>j < i. xs ! j \<noteq> v" by blast
    have "\<forall>j < Suc i. (x # xs) ! j \<noteq> v"
    proof (intro allI impI)
      fix j assume "j < Suc i"
      then show "(x # xs) ! j \<noteq> v" using False i(4) by (cases j) auto
    qed
    then show ?thesis using False i by auto
  qed
qed

lemma unpack7_len:
  "length xs = 7 \<Longrightarrow> unpack7 xs = Inr (xs ! 0, xs ! 1, xs ! 2, xs ! 3, xs ! 4, xs ! 5, xs ! 6)"
  by (simp add: unpack7_def)

lemma six_nth: "i < 6 \<Longrightarrow> six ps ! i = ps ! i"
proof -
  assume "i < 6"
  then have "i = 0 \<or> i = 1 \<or> i = 2 \<or> i = 3 \<or> i = 4 \<or> i = 5" by arith
  then show ?thesis by (auto simp: six_def)
qed

lemma signature_stat_spec:
  assumes "length ps = 7"
  shows "\<exists>i < 6. (\<forall>j < 6. ps ! j \<le> ps ! i) \<and> (\<forall>j < i. ps ! j < ps ! i)
             \<and> signature_stat ps = Inr ([Pts, Reb, Ast, To, Stocks, Threepm] ! i)"
proof -
  have len: "length (six ps) = 6" by (simp add: six_def)
  then have ne: "six ps \<noteq> []" by auto
  from py_max_spec [OF ne] obtain m where
    m: "py_max (six ps) = Some m" "m \<in> set (six ps)" "\<forall>y \<in> set (six ps). y \<le> m" by blast
  from py_index_spec [OF m(2)] obtain i where
    i: "py_index (six ps) m = Some i" "i < length (six ps)" "six ps ! i = m"
       "\<forall>j < i. six ps ! j \<noteq> m" by blast
  have i6: "i < 6" using i(2) len by simp
  have mi: "m = ps ! i" using i(3) six_nth [OF i6] by simp
  have up: "\<forall>j < 6. ps ! j \<le> ps ! i"
  proof (intro allI impI)
    fix j :: nat assume j: "j < 6"
    then have "six ps ! j \<in> set (six ps)" using len by (simp add: nth_mem)
    then show "ps ! j \<le> ps ! i" using m(3) mi six_nth [OF j] by auto
  qed
  have first: "\<forall>j < i. ps ! j < ps ! i"
  proof (intro allI impI)
    fix j assume j: "j < i"
    then have j6: "j < 6" using i6 by simp
    have "ps ! j \<noteq> ps ! i" using i(4) j mi six_nth [OF j6] by auto
    moreover have "ps ! j \<le> ps ! i" using up j6 by simp
    ultimately show "ps ! j < ps ! i" by simp
  qed
  have "signature_stat ps = Inr ([Pts, Reb, Ast, To, Stocks, Threepm] ! i)"
    unfolding signature_stat_def unpack7_len [OF assms]
    by (simp only: sum.case prod.case Let_def six_def [symmetric] m(1) i(1) option.case)
  then show ?thesis using i6 up first by blast
qed


text \<open>
  Claim C3, as stated, fails at monthly granularity: for a projection whose signature
  stat is points, the monthly coefficients of "One Dimensional" are not the monthly
  defaults with the points coefficient raised by 8 percent.
\<close>

theorem one_dimensional_monthly_not_selected:
  "signature_stat [20, 5, 5, 2, 1.5, 2, 0.55] = Inr Pts
   \<and> get_monthly_alphas (Some ''One Dimensional'')
       \<noteq> monthly_default_alphas (Pts := monthly_default_alphas Pts * 1.08)"
proof -
  have "signature_stat [20, 5, 5, 2, 1.5, 2, 0.55] = Inr Pts"
    by (simp add: signature_stat_def unpack7_def Let_def)
  moreover have "get_monthly_alphas (Some ''One Dimensional'') Reb
       \<noteq> (monthly_default_alphas (Pts := monthly_default_alphas Pts * 1.08)) Reb"
    by (simp add: get_monthly_alphas_def monthly_default_alphas_def not_archetype_def mk_dict_def Let_def)
  then have "get_monthly_alphas (Some ''One Dimensional'')
       \<noteq> monthly_default_alphas (Pts := monthly_default_alphas Pts * 1.08)" by metis
  ultimately show ?thesis by (rule conjI)
qed

text \<open>
  Claim C3, amended. For "One Dimensional" and a seven-field projection, the weekly
  dispersion stage selects the first field that holds the largest of the six values
  other than the shooting percentage, multiplies that field's default weekly coefficient
  by 1.08 and leaves every other coefficient at its weekly default. The monthly stage
  makes no selection: it uses the fixed table 0.890, 0.593, 0.593, 0.602, 0.602, 0.602,
  0.077, whatever the projection.
\<close>

theorem one_dimensional_alphas:
  assumes "length projected_stats = 7"
  shows "(\<exists>i < 6.
            (\<forall>j < 6. projected_stats ! j \<le> projected_stats ! i)
          \<and> (\<forall>j < i. projected_stats ! j < projected_stats ! i)
          \<and> signature_stat projected_stats = Inr ([Pts, Reb, Ast, To, Stocks, Threepm] ! i)
          \<and> get_weekly_alphas (Some ''One Dimensional'') projected_stats =
              Inr (weekly_default_alphas
                    ([Pts, Reb, Ast, To, Stocks, Threepm] ! i :=
                       weekly_default_alphas ([Pts, Reb, Ast, To, Stocks, Threepm] ! i) * 1.08))
          \<and> calculate_standard_deviations projected_stats ''weekly'' (Some ''One Dimensional'') =
              Inr (std_devs_of
                    (weekly_default_alphas
                      ([Pts, Reb, Ast, To, Stocks, Threepm] ! i :=
                         weekly_default_alphas ([Pts, Reb, Ast, To, Stocks, Threepm] ! i) * 1.08))
                    (projected_stats ! 0) (projected_stats ! 1) (projected_stats ! 2)
                    (projected_stats ! 3) (projected_stats ! 4) (projected_stats ! 5)))
       \<and> get_monthly_alphas (Some ''One Dimensional'')
           = mk_dict 0.890 0.593 0.593 0.602 0.602 0.602 0.077
       \<and> calculate_standard_deviations projected_stats ''monthly'' (Some ''One Dimensional'') =
           Inr (std_devs_of (mk_dict 0.890 0.593 0.593 0.602 0.602 0.602 0.077)
                 (projected_stats ! 0) (projected_stats ! 1) (projected_stats ! 2)
                 (projected_stats ! 3) (projected_stats ! 4) (projected_stats ! 5))"
proof -
  from signature_stat_spec [OF assms] obtain i where
    i: "i < 6" "\<forall>j < 6. projected_stats ! j \<le> projected_stats ! i"
       "\<forall>j < i. projected_stats ! j < projected_stats ! i"
       "signature_stat projected_stats = Inr ([Pts, Reb, Ast, To, Stocks, Threepm] ! i)" by blast
  have w: "get_weekly_alphas (Some ''One Dimensional'') projected_stats =
              Inr (weekly_default_alphas
                    ([Pts, Reb, Ast, To, Stocks, Threepm] ! i :=
                       weekly_default_alphas ([Pts, Reb, Ast, To, Stocks, Threepm] ! i) * 1.08))"
    by (simp add: get_weekly_alphas_def not_archetype_def i(4) Let_def)
  have sw: "calculate_standard_deviations projected_stats ''weekly'' (Some ''One Dimensional'') =
              Inr (std_devs_of
                    (weekly_default_alphas
                      ([Pts, Reb, Ast, To, Stocks, Threepm] ! i :=
                         weekly_default_alphas ([Pts, Reb, Ast, To, Stocks, Threepm] ! i) * 1.08))
                    (projected_stats ! 0) (projected_stats ! 1) (projected_stats ! 2)
                    (projected_stats ! 3) (projected_stats ! 4) (projected_stats ! 5))"
    by (simp add: calculate_standard_deviations_def unpack7_len [OF assms] w)
  have m: "get_monthly_alphas (Some ''One Dimensional'')
           = mk_dict 0.890 0.593 0.593 0.602 0.602 0.602 0.077"
    by (simp add: get_monthly_alphas_def not_archetype_def Let_def)
  have sm: "calculate_standard_deviations projected_stats ''monthly'' (Some ''One Dimensional'') =
           Inr (std_devs_of (mk_dict 0.890 0.593 0.593 0.602 0.602 0.602 0.077)
                 (projected_stats ! 0) (projected_stats ! 1) (projected_stats ! 2)
                 (projected_stats ! 3) (projected_stats ! 4) (projected_stats ! 5))"
    by (simp add: calculate_standard_deviations_def unpack7_len [OF assms] m)
  show ?thesis using i w sw m sm by blast
qed

theorem one_dimensional_alphas_witness:
  "get_weekly_alphas (Some ''One Dimensional'') [5, 9, 9, 2, 1.5, 2, 0.55]
     = Inr (weekly_default_alphas (Reb := weekly_default_alphas Reb * 1.08))
   \<and> calculate_standard_deviations [5, 9, 9, 2, 1.5, 2, 0.55] ''monthly'' (Some ''One Dimensional'')
     = Inr (std_devs_of (mk_dict 0.890 0.593 0.593 0.602 0.602 0.602 0.077) 5 9 9 2 1.5 2)"
proof -
  have len: "length [5, 9, 9, 2, 1.5, 2, 0.55 :: real] = 7" by simp
  have sig: "signature_stat [5, 9, 9, 2, 1.5, 2, 0.55] = Inr Reb"
    by (simp add: signature_stat_def unpack7_def Let_def)
  from one_dimensional_alphas [OF len] obtain i where
    i: "signature_stat [5, 9, 9, 2, 1.5, 2, 0.55] = Inr ([Pts, Reb, Ast, To, Stocks, Threepm] ! i)"
       "get_weekly_alphas (Some ''One Dimensional'') [5, 9, 9, 2, 1.5, 2, 0.55] =
          Inr (weekly_default_alphas
                ([Pts, Reb, Ast, To, Stocks, Threepm] ! i :=
                   weekly_default_alphas ([Pts, Reb, Ast, To, Stocks, Threepm] ! i) * 1.08))"
    by blast
  have "[Pts, Reb, Ast, To, Stocks, Threepm] ! i = Reb" using i(1) sig by simp
  then have "get_weekly_alphas (Some ''One Dimensional'') [5, 9, 9, 2, 1.5, 2, 0.55]
     = Inr (weekly_default_alphas (Reb := weekly_default_alphas Reb * 1.08))"
    using i(2) by simp
  moreover have "calculate_standard_deviations [5, 9, 9, 2, 1.5, 2, 0.55] ''monthly'' (Some ''One Dimensional'')
     = Inr (std_devs_of (mk_dict 0.890 0.593 0.593 0.602 0.602 0.602 0.077) 5 9 9 2 1.5 2)"
    using one_dimensional_alphas [OF len] by simp
  ultimately show ?thesis by (rule conjI)
qed


section \<open>MonthlyAlgorithm against TimeframeAlgorithm\<close>

lemma monthly_projected_eq:
  "monthly_calculate_projected_stats season_avg recent_avg a
     = calculate_projected_stats season_avg recent_avg ''monthly'' use_2023_stats a"
  unfolding monthly_calculate_projected_stats_def calculate_projected_stats_def
  by (simp split: sum.splits)

lemma monthly_alphas_eq: "monthly_get_monthly_alphas a = get_monthly_alphas a"
  unfolding monthly_get_monthly_alphas_def get_monthly_alphas_def monthly_default_alphas_def
  by (rule refl)

lemma monthly_std_devs_eq:
  "monthly_calculate_standard_deviations projected_stats a
     = calculate_standard_deviations projected_stats ''monthly'' a"
  unfolding monthly_calculate_standard_deviations_def calculate_standard_deviations_def
    monthly_alphas_eq std_devs_of_def
  by (simp add: Let_def split: sum.splits)

lemma monthly_actual_averages_eq:
  "monthly_calculate_actual_averages actual_totals n = calculate_actual_averages actual_totals n"
  unfolding monthly_calculate_actual_averages_def calculate_actual_averages_def by (rule refl)

lemma monthly_z_scores_eq:
  "monthly_calculate_z_scores actual_avg projected_stats std_devs
     = calculate_z_scores actual_avg projected_stats std_devs"
  unfolding monthly_calculate_z_scores_def calculate_z_scores_def by (rule refl)

lemma monthly_weights_eq: "monthly_get_archetype_weights a = get_archetype_weights a"
  unfolding monthly_get_archetype_weights_def get_archetype_weights_def by (rule refl)

lemma get_archetype_weights_falsy:
  "not_archetype a \<Longrightarrow> get_archetype_weights a = default_weights"
  unfolding get_archetype_weights_def default_weights_def not_archetype_def by auto

lemma monthly_pps_eq: "monthly_calculate_pps z_scores a = calculate_pps z_scores a"
  unfolding monthly_calculate_pps_def calculate_pps_def weighted_sum_def pps_weights_def
    monthly_weights_eq Let_def
  by (simp add: get_archetype_weights_falsy)

lemma monthly_dis_eq: "monthly_calculate_dis pps a = calculate_dis pps a"
  unfolding monthly_calculate_dis_def calculate_dis_def dis_buys_def dis_sells_def Let_def
  by (rule refl)

lemma monthly_raw_delta_eq: "monthly_calculate_raw_delta pps dis a = calculate_raw_delta pps dis a"
  unfolding monthly_calculate_raw_delta_def calculate_raw_delta_def by (rule refl)

lemma monthly_dampening_eq: "monthly_apply_dampening raw_delta a = apply_dampening raw_delta ''monthly'' a"
  unfolding monthly_apply_dampening_def apply_dampening_def gain_curve_fold
  by simp

lemma monthly_new_price_eq:
  "monthly_calculate_new_price old_price d = calculate_new_price old_price d"
  unfolding monthly_calculate_new_price_def calculate_new_price_def by (rule refl)

text \<open>
  Claim C10. On every input, \<open>MonthlyAlgorithm.simulate_monthly\<close> returns what
  \<open>TimeframeAlgorithm.simulate_timeframe\<close> returns for the timeframe \<open>monthly\<close>: the same
  result record, or the same exception raised at the same stage. The flag
  \<open>use_2023_stats\<close> has no effect on the monthly timeframe.
\<close>

theorem simulate_monthly_eq_simulate_timeframe:
  "simulate_monthly actual_totals num_games season_avg recent_avg old_price a
     = simulate_timeframe actual_totals num_games season_avg recent_avg old_price ''monthly''
         use_2023_stats a"
  unfolding simulate_monthly_def simulate_timeframe_def
    monthly_projected_eq [where use_2023_stats = use_2023_stats]
    monthly_std_devs_eq monthly_actual_averages_eq monthly_z_scores_eq monthly_pps_eq
    monthly_dis_eq monthly_raw_delta_eq monthly_dampening_eq monthly_new_price_eq
  by (rule refl)

lemma mk_dict_pos:
  "0 < p \<Longrightarrow> 0 < r \<Longrightarrow> 0 < a \<Longrightarrow> 0 < t \<Longrightarrow> 0 < s \<Longrightarrow> 0 < th \<Longrightarrow> 0 < ts
     \<Longrightarrow> 0 < mk_dict p r a t s th ts k"
  by (cases k) (simp_all add: mk_dict_def)

section \<open>Positive weights\<close>

lemma default_weights_pos: "0 < default_weights k"
  unfolding default_weights_def by (rule mk_dict_pos) simp_all

lemma get_archetype_weights_pos: "0 < get_archetype_weights a k"
  unfolding get_archetype_weights_def by (simp add: mk_dict_pos)

lemma pps_weights_pos: "0 < pps_weights a k"
  by (simp add: pps_weights_def default_weights_pos get_archetype_weights_pos)

section \<open>Properties of the rounding\<close>

lemma p2_powr: "p2 e = 2 powr (of_int e)"
proof (cases "0 \<le> e")
  case True
  then have "(2::real) powr (of_int e) = 2 powr (real (nat e))" by simp
  also have "\<dots> = 2 ^ nat e" by (simp add: powr_realpow)
  finally show ?thesis using True by (simp add: p2_def)
next
  case False
  then have "(2::real) powr (of_int e) = 2 powr (- real (nat (- e)))" by simp
  also have "\<dots> = 1 / 2 powr (real (nat (- e)))" by (simp add: powr_minus_divide)
  also have "\<dots> = 1 / 2 ^ nat (- e)" by (simp add: powr_realpow)
  finally show ?thesis using False by (simp add: p2_def)
qed






























lemma p2_le_cancel: "p2 a \<le> p2 b \<Longrightarrow> a \<le> b"
  by (simp add: p2_powr)






























lemma rhe_near:
  assumes "\<bar>x - of_int n\<bar> < 1 / 2"
  shows "rhe x = n"
proof (cases "of_int n \<le> x")
  case True
  have "of_int n \<le> x" "x < of_int n + 1" using assms True by linarith+
  then have "\<lfloor>x\<rfloor> = n" by (rule floor_unique)
  then show ?thesis using assms True by (simp add: rhe_def Let_def)
next
  case False
  have "real_of_int (n - 1) = real_of_int n - 1" by simp
  then have "of_int (n - 1) \<le> x" "x < of_int (n - 1) + 1" using assms False by linarith+
  then have f: "\<lfloor>x\<rfloor> = n - 1" by (rule floor_unique)
  have "real_of_int (n - 1) = real_of_int n - 1" by simp
  then have "1 / 2 < x - of_int (n - 1)" using assms False by linarith
  then show ?thesis by (simp add: rhe_def Let_def f)
qed


lemma rhe_half_odd: "odd n \<Longrightarrow> rhe (of_int n + 1 / 2) = n + 1"
proof -
  assume e: "odd n"
  have "\<lfloor>real_of_int n + 1 / 2\<rfloor> = n" by (intro floor_unique) simp_all
  then show ?thesis using e by (simp add: rhe_def Let_def)
qed














section \<open>The gain branch and the new price in doubles\<close>















end
